theory Spec2Isabelle
  imports Main
begin

section \<open>Python strings\<close>

text \<open>
  A Python \<open>str\<close> is modelled as a \<open>string\<close>, one \<open>char\<close> per code point, which
  covers the code points below 256. \<open>isspace\<close> is Python's \<open>str.isspace\<close> on one
  character of that range: TAB, LF, VT, FF, CR, the separators FS, GS, RS, US, the space,
  NEL (0x85) and the no-break space (0xA0). \<open>strip\<close> is \<open>str.strip()\<close> without argument.
\<close>

definition isspace :: "char \<Rightarrow> bool" where
  "isspace c = ((of_char c :: nat) \<in> {9, 10, 11, 12, 13, 28, 29, 30, 31, 32, 133, 160})"

definition lstrip :: "string \<Rightarrow> string" where
  "lstrip s = dropWhile isspace s"

definition rstrip :: "string \<Rightarrow> string" where
  "rstrip s = rev (dropWhile isspace (rev s))"

definition strip :: "string \<Rightarrow> string" where
  "strip s = rstrip (lstrip s)"

text \<open>\<open>sep.join(parts)\<close>.\<close>

fun join :: "string \<Rightarrow> string list \<Rightarrow> string" where
  "join sep [] = []"
| "join sep [x] = x"
| "join sep (x # y # ys) = x @ sep @ join sep (y # ys)"

text \<open>\<open>s.startswith(p)\<close>.\<close>

fun startswith :: "string \<Rightarrow> string \<Rightarrow> bool" where
  "startswith s [] = True"
| "startswith [] (p # ps) = False"
| "startswith (c # cs) (p # ps) = (c = p \<and> startswith cs ps)"

text \<open>
  \<open>s.replace(old, new)\<close>: every non-overlapping occurrence of \<open>old\<close>, found from left to
  right, is replaced. With an empty \<open>old\<close> Python puts \<open>new\<close> before every character and
  at the end.
\<close>

function replace :: "string \<Rightarrow> string \<Rightarrow> string \<Rightarrow> string" where
  "replace s old new =
     (if old = [] then
        (case s of [] \<Rightarrow> new | c # cs \<Rightarrow> new @ c # replace cs old new)
      else
        (case s of
           [] \<Rightarrow> []
         | c # cs \<Rightarrow>
             if startswith s old then new @ replace (drop (length old) s) old new
             else c # replace cs old new))"
  by pat_completeness auto
termination
  by (relation "measure (\<lambda>(s, old, new). length s)") auto

text \<open>\<open>a or b\<close> on strings: the empty string is falsy.\<close>

definition str_or :: "string \<Rightarrow> string \<Rightarrow> string" where
  "str_or a b = (if a = [] then b else a)"

section \<open>\<open>build_prompt\<close>\<close>

definition base :: string where
  "base =
     ''You are FocusStudy AI, an exam-focused tutor.\<newline>'' @
     ''Use ONLY the provided notes. If notes do not contain the answer, say:\<newline>'' @
     [CHR 0x22] @ ''I can't find this in the provided notes.'' @ [CHR 0x22] @
     '' Then give a short general hint (2-3 lines max).\<newline>'' @
     ''Format cleanly using headings and bullet points.\<newline>''"

text \<open>The dictionary of the mode lines, and its \<open>.get(mode, default)\<close>.\<close>

definition mode_lines :: "string \<rightharpoonup> string" where
  "mode_lines =
     [''explain'' \<mapsto> ''Mode: EXPLAIN. Explain simply and give one small example.\<newline>'',
      ''exam'' \<mapsto>
        ''Mode: EXAM READY. Write a structured exam answer with headings + key points.\<newline>'',
      ''revision'' \<mapsto> ''Mode: REVISION. Give crisp revision bullets.\<newline>'']"

definition dict_get :: "('k \<rightharpoonup> 'v) \<Rightarrow> 'k \<Rightarrow> 'v \<Rightarrow> 'v" where
  "dict_get d k dflt = (case d k of None \<Rightarrow> dflt | Some v \<Rightarrow> v)"

definition mode_line :: "string \<Rightarrow> string" where
  "mode_line mode = dict_get mode_lines mode ''Mode: EXPLAIN.\<newline>''"

definition notes_block :: "string \<Rightarrow> string" where
  "notes_block notes_text =
     (if strip notes_text \<noteq> [] then ''\<newline>NOTES:\<newline>'' @ notes_text @ ''\<newline>''
      else ''\<newline>NOTES: (none)\<newline>'')"

definition build_prompt :: "string \<Rightarrow> string \<Rightarrow> string \<Rightarrow> string" where
  "build_prompt mode question notes_text =
     base @ mode_line mode @ notes_block notes_text @
     ''\<newline>QUESTION:\<newline>'' @ question @ ''\<newline>\<newline>ANSWER:\<newline>''"

section \<open>\<open>format_html\<close>\<close>

definition format_html :: "string \<Rightarrow> string" where
  "format_html text =
     (if text = [] then []
      else
        let text1 = replace text [CHR 0x0D, CHR 0x0A] ''\<newline>'';
            text2 = replace text1 ''\<newline>\<newline>'' ''<br><br>'';
            text3 = replace text2 ''\<newline>'' ''<br>''
        in text3)"

section \<open>Collaborators and their effects\<close>

text \<open>
  An exception is its class name and the text \<open>str(e)\<close> gives. The collaborators fail with
  instances of \<open>Exception\<close>, which is what the \<open>except Exception\<close> clauses of the program
  catch; a function that can raise returns \<open>exn + 'a\<close>, with \<open>Inl\<close> the exception raised.
\<close>

datatype exn = Exn (exn_class: string) (exn_str: string)

text \<open>\<open>raise None\<close>, reached by \<open>gen_with_retry\<close> when the loop body never ran.\<close>

definition raise_None :: exn where
  "raise_None = Exn ''TypeError'' ''exceptions must derive from BaseException''"

type_synonym bytes = "char list"

text \<open>An uploaded file (\<open>FileStorage\<close>): its file name and the bytes of its stream.\<close>

record upload =
  filename :: string
  stream :: bytes

text \<open>
  The response of the generation service is read only through
  \<open>getattr(resp, "text", "")\<close>: the attribute is absent, \<open>None\<close> or a string.
\<close>

datatype attr = Absent | PyNone | PyStr string

datatype response = Response (resp_text: attr)

text \<open>The \<open>contents\<close> argument: a prompt, or a list of strings and decoded images.\<close>

datatype 'i part = TextPart string | ImagePart 'i

datatype 'i contents = Text string | Parts "'i part list"

text \<open>
  The calls the program makes to the outside, in the order it makes them: the trace is
  the state threaded through the program. \<open>PdfReader_call\<close> stands for the construction
  of the reader and the page extractions that follow it.
\<close>

datatype 'i event =
    PdfReader_call bytes
  | Image_open_call bytes
  | Generate_call string "'i contents"
  | Sleep_call int

text \<open>
  The collaborators. \<open>PdfReader\<close> either fails or gives the pages, and each page's
  \<open>extract_text()\<close> either fails or gives \<open>None\<close> or a string. \<open>Image_open\<close> is
  \<open>Image.open(io.BytesIO(b)).convert("RGB")\<close>. \<open>generate_content env n\<close> is what the
  service answers to its call number \<open>n\<close> (counted from 0 over the whole trace).
\<close>

type_synonym page = "exn + string option"

record 'i env =
  PdfReader :: "bytes \<Rightarrow> exn + page list"
  Image_open :: "bytes \<Rightarrow> exn + 'i"
  generate_content :: "nat \<Rightarrow> string \<Rightarrow> 'i contents \<Rightarrow> exn + response"

fun is_generate :: "'i event \<Rightarrow> bool" where
  "is_generate (Generate_call m c) = True"
| "is_generate _ = False"

definition gen_count :: "'i event list \<Rightarrow> nat" where
  "gen_count tr = length (filter is_generate tr)"

fun sleeps_of :: "'i event list \<Rightarrow> int list" where
  "sleeps_of [] = []"
| "sleeps_of (Sleep_call d # tr) = d # sleeps_of tr"
| "sleeps_of (_ # tr) = sleeps_of tr"

text \<open>\<open>x or b\<close> where \<open>x\<close> is \<open>None\<close> or a string.\<close>

definition opt_or :: "string option \<Rightarrow> string \<Rightarrow> string" where
  "opt_or x b = (case x of None \<Rightarrow> b | Some a \<Rightarrow> str_or a b)"

definition TEXT_MODEL :: string where
  "TEXT_MODEL = ''gemini-2.5-flash''"

definition VISION_MODEL :: string where
  "VISION_MODEL = ''gemini-2.5-flash''"

section \<open>\<open>extract_pdf_text\<close>\<close>

text \<open>The loop over \<open>reader.pages\<close>; \<open>parts\<close> is the list built so far.\<close>

fun pages_loop :: "page list \<Rightarrow> string list \<Rightarrow> exn + string list" where
  "pages_loop [] parts = Inr parts"
| "pages_loop (page # rest) parts =
     (case page of
        Inl e \<Rightarrow> Inl e
      | Inr extracted \<Rightarrow>
          let t = strip (opt_or extracted [])
          in if t \<noteq> [] then pages_loop rest (parts @ [t]) else pages_loop rest parts)"

text \<open>The body of the \<open>try\<close>.\<close>

definition extract_pdf_text_try :: "'i env \<Rightarrow> upload \<Rightarrow> exn + string" where
  "extract_pdf_text_try env pdf_file =
     (case PdfReader env (stream pdf_file) of
        Inl e \<Rightarrow> Inl e
      | Inr pages \<Rightarrow>
          (case pages_loop pages [] of
             Inl e \<Rightarrow> Inl e
           | Inr parts \<Rightarrow> Inr (strip (join ''\<newline>\<newline>'' parts))))"

definition extract_pdf_text ::
  "'i env \<Rightarrow> upload \<Rightarrow> 'i event list \<Rightarrow> (exn + string) \<times> 'i event list" where
  "extract_pdf_text env pdf_file tr =
     (case extract_pdf_text_try env pdf_file of
        Inl e \<Rightarrow> (Inr [], tr @ [PdfReader_call (stream pdf_file)])
      | Inr s \<Rightarrow> (Inr s, tr @ [PdfReader_call (stream pdf_file)]))"

section \<open>\<open>gen_with_retry\<close>\<close>

definition response_text :: "response \<Rightarrow> string" where
  "response_text resp =
     (case resp_text resp of
        Absent \<Rightarrow> str_or [] []
      | PyNone \<Rightarrow> []
      | PyStr s \<Rightarrow> str_or s [])"

definition call_generate_content ::
  "'i env \<Rightarrow> string \<Rightarrow> 'i contents \<Rightarrow> 'i event list \<Rightarrow> (exn + response) \<times> 'i event list" where
  "call_generate_content env model contents tr =
     (generate_content env (gen_count tr) model contents, tr @ [Generate_call model contents])"

text \<open>
  The loop \<open>for i in range(tries)\<close>: \<open>retry_loop env model contents n i last_err\<close> has
  \<open>n\<close> iterations left, the next of them with loop variable \<open>i\<close>.
\<close>

fun retry_loop ::
  "'i env \<Rightarrow> string \<Rightarrow> 'i contents \<Rightarrow> nat \<Rightarrow> int \<Rightarrow> exn option \<Rightarrow> 'i event list \<Rightarrow>
   (exn + string) \<times> 'i event list" where
  "retry_loop env model contents 0 i last_err tr =
     (case last_err of None \<Rightarrow> (Inl raise_None, tr) | Some e \<Rightarrow> (Inl e, tr))"
| "retry_loop env model contents (Suc n) i last_err tr =
     (case call_generate_content env model contents tr of
        (Inr resp, tr1) \<Rightarrow> (Inr (response_text resp), tr1)
      | (Inl e, tr1) \<Rightarrow>
          retry_loop env model contents n (i + 1) (Some e) (tr1 @ [Sleep_call (2 * (i + 1))]))"

definition gen_with_retry ::
  "'i env \<Rightarrow> string \<Rightarrow> 'i contents \<Rightarrow> int \<Rightarrow> 'i event list \<Rightarrow> (exn + string) \<times> 'i event list" where
  "gen_with_retry env model contents tries tr =
     retry_loop env model contents (nat tries) 0 None tr"

section \<open>\<open>ocr_image_with_gemini\<close>\<close>

definition ocr_prompt :: string where
  "ocr_prompt =
     ''Extract the handwritten text clearly and accurately. '' @
     ''Return ONLY the extracted text. No extra commentary.''"

definition ocr_image_with_gemini ::
  "'i env \<Rightarrow> upload \<Rightarrow> 'i event list \<Rightarrow> (exn + string) \<times> 'i event list" where
  "ocr_image_with_gemini env image_file tr =
     (let img_bytes = stream image_file
      in case Image_open env img_bytes of
           Inl e \<Rightarrow> (Inl e, tr @ [Image_open_call img_bytes])
         | Inr pil_img \<Rightarrow>
             (case gen_with_retry env VISION_MODEL (Parts [TextPart ocr_prompt, ImagePart pil_img])
                     3 (tr @ [Image_open_call img_bytes]) of
                (Inl e, tr1) \<Rightarrow> (Inl e, tr1)
              | (Inr t, tr1) \<Rightarrow> (Inr (strip (str_or t [])), tr1)))"

section \<open>\<open>home\<close>\<close>

text \<open>
  The request as \<open>home\<close> reads it: the method, the form fields and the uploaded files.
  The result is the pair of values given to \<open>render_template\<close>.
\<close>

record request =
  req_method :: string
  form :: "string \<rightharpoonup> string"
  files :: "string \<rightharpoonup> upload"

record rendered =
  answer :: string
  error :: string

text \<open>
  \<open>home\<close> is cut at its early returns; each piece runs to the end of the function
  (the variable \<open>image\<close> is written \<open>image'\<close>).
  \<open>home_generate\<close> is the prompt and the answer (from \<open>prompt = build_prompt(...)\<close> on).
\<close>

definition home_generate ::
  "'i env \<Rightarrow> string \<Rightarrow> string \<Rightarrow> string \<Rightarrow> 'i event list \<Rightarrow>
   (exn + rendered) \<times> 'i event list" where
  "home_generate env mode question notes_text tr =
     (let prompt = build_prompt mode question notes_text
      in case gen_with_retry env TEXT_MODEL (Text prompt) 3 tr of
           (Inr final_text, tr1) \<Rightarrow> (Inr \<lparr>answer = format_html final_text, error = []\<rparr>, tr1)
         | (Inl e, tr1) \<Rightarrow> (Inr \<lparr>answer = [], error = ''Gemini error: '' @ exn_str e\<rparr>, tr1))"

text \<open>From \<open>if image and image.filename\<close> on.\<close>

definition home_image ::
  "'i env \<Rightarrow> upload option \<Rightarrow> string \<Rightarrow> string \<Rightarrow> string \<Rightarrow> 'i event list \<Rightarrow>
   (exn + rendered) \<times> 'i event list" where
  "home_image env image' mode question notes_text tr =
     (case image' of
        None \<Rightarrow> home_generate env mode question notes_text tr
      | Some image_file \<Rightarrow>
          if filename image_file = [] then home_generate env mode question notes_text tr
          else
            (case ocr_image_with_gemini env image_file tr of
               (Inl e, tr1) \<Rightarrow>
                 (Inr \<lparr>answer = [], error = ''Image OCR failed: '' @ exn_str e\<rparr>, tr1)
             | (Inr extracted, tr1) \<Rightarrow>
                 if extracted \<noteq> [] then
                   home_generate env mode question
                     (if notes_text \<noteq> [] then strip (notes_text @ ''\<newline>\<newline>'' @ extracted)
                      else extracted) tr1
                 else home_generate env mode question notes_text tr1))"

text \<open>From \<open>notes_text = ""\<close> on. An exception of \<open>extract_pdf_text\<close> would leave \<open>home\<close>.\<close>

definition home_pdf ::
  "'i env \<Rightarrow> upload option \<Rightarrow> upload option \<Rightarrow> string \<Rightarrow> string \<Rightarrow> 'i event list \<Rightarrow>
   (exn + rendered) \<times> 'i event list" where
  "home_pdf env pdf image' mode question tr =
     (case pdf of
        None \<Rightarrow> home_image env image' mode question [] tr
      | Some pdf_file \<Rightarrow>
          if filename pdf_file = [] then home_image env image' mode question [] tr
          else
            (case extract_pdf_text env pdf_file tr of
               (Inl e, tr1) \<Rightarrow> (Inl e, tr1)
             | (Inr pdf_text, tr1) \<Rightarrow>
                 if pdf_text = [] then
                   (Inr \<lparr>answer = [],
                         error = ''This PDF looks scanned/handwritten. '' @
                                 ''Please upload clear images instead.''\<rparr>, tr1)
                 else home_image env image' mode question pdf_text tr1))"

definition home ::
  "'i env \<Rightarrow> request \<Rightarrow> 'i event list \<Rightarrow> (exn + rendered) \<times> 'i event list" where
  "home env req tr =
     (if req_method req = ''POST'' then
        let mode = dict_get (form req) ''mode'' ''explain'';
            question = strip (opt_or (form req ''question'') []);
            pdf = files req ''pdf'';
            image' = files req ''image''
        in if question = [] then
             (Inr \<lparr>answer = [], error = ''Please type your question.''\<rparr>, tr)
           else home_pdf env pdf image' mode question tr
      else (Inr \<lparr>answer = [], error = []\<rparr>, tr))"

text \<open>
  \<open>pdf_step env pdf tr notes_text tr1\<close>: from the trace \<open>tr\<close>, the document step of \<open>home\<close>
  goes on to the image step with the notes \<open>notes_text\<close> and the trace \<open>tr1\<close>: no document
  is attached, or the text extracted from it is not empty.
\<close>

definition pdf_step ::
  "'i env \<Rightarrow> upload option \<Rightarrow> 'i event list \<Rightarrow> string \<Rightarrow> 'i event list \<Rightarrow> bool" where
  "pdf_step env pdf tr notes_text tr1 =
     (case pdf of
        None \<Rightarrow> notes_text = [] \<and> tr1 = tr
      | Some pdf_file \<Rightarrow>
          if filename pdf_file = [] then notes_text = [] \<and> tr1 = tr
          else notes_text \<noteq> [] \<and> extract_pdf_text env pdf_file tr = (Inr notes_text, tr1))"

section \<open>Sample collaborators and requests\<close>

text \<open>
  A PDF library that fails on the stream \<open>bad\<close>, fails on the second page of \<open>torn\<close>,
  finds no text on the pages of \<open>scan\<close> and finds three pages otherwise; an image
  decoder; and a generation service that answers its calls from a script.
\<close>

definition sample_PdfReader :: "bytes \<Rightarrow> exn + page list" where
  "sample_PdfReader b =
     (if b = ''bad'' then Inl (Exn ''PdfReadError'' ''EOF marker not found'')
      else if b = ''torn'' then Inr [Inr (Some ''Cells''), Inl (Exn ''KeyError'' ''/Contents'')]
      else if b = ''scan'' then Inr (map Inr [None, Some '' \<newline>'', Some []])
      else Inr (map Inr [Some '' Cells \<newline>'', None, Some ''Osmosis'']))"

definition sample_env :: "(nat \<Rightarrow> exn + response) \<Rightarrow> nat env" where
  "sample_env script =
     \<lparr>PdfReader = sample_PdfReader,
      Image_open = (\<lambda>b. if b = [] then Inl (Exn ''UnidentifiedImageError'' ''cannot identify image file'')
                         else Inr (length b)),
      generate_content = (\<lambda>n model contents. script n)\<rparr>"

definition script_down :: "nat \<Rightarrow> exn + response" where
  "script_down n =
     Inl (Exn ''ServerError''
            (if n = 0 then ''first failure'' else if n = 1 then ''second failure''
             else ''third failure''))"

definition script_flaky :: "nat \<Rightarrow> exn + response" where
  "script_flaky n =
     (if n = 0 then Inl (Exn ''ServerError'' ''503 UNAVAILABLE'')
      else Inr (Response (PyStr ''Water moves.'')))"

definition script_blank_ocr :: "nat \<Rightarrow> exn + response" where
  "script_blank_ocr n =
     (if n = 0 then Inr (Response (PyStr '' \<newline>'')) else Inr (Response (PyStr ''Water\<newline>moves.'')))"

definition script_no_text :: "nat \<Rightarrow> exn + response" where
  "script_no_text n = (if n = 0 then Inr (Response Absent) else Inr (Response PyNone))"

definition req_blank :: request where
  "req_blank =
     \<lparr>req_method = ''POST'', form = [''mode'' \<mapsto> ''exam'', ''question'' \<mapsto> ''  ''],
      files = [''pdf'' \<mapsto> \<lparr>filename = ''notes.pdf'', stream = ''good''\<rparr>]\<rparr>"

definition req_scan :: request where
  "req_scan =
     \<lparr>req_method = ''POST'', form = [''mode'' \<mapsto> ''exam'', ''question'' \<mapsto> ''What is osmosis?''],
      files = [''pdf'' \<mapsto> \<lparr>filename = ''scan.pdf'', stream = ''scan''\<rparr>,
               ''image'' \<mapsto> \<lparr>filename = ''page.jpg'', stream = ''jpeg''\<rparr>]\<rparr>"

definition req_image :: request where
  "req_image =
     \<lparr>req_method = ''POST'', form = [''question'' \<mapsto> '' What is osmosis? ''],
      files = [''image'' \<mapsto> \<lparr>filename = ''page.jpg'', stream = ''jpeg''\<rparr>]\<rparr>"

definition req_both :: request where
  "req_both =
     \<lparr>req_method = ''POST'', form = [''mode'' \<mapsto> ''revision'', ''question'' \<mapsto> ''What is osmosis?''],
      files = [''pdf'' \<mapsto> \<lparr>filename = ''notes.pdf'', stream = ''good''\<rparr>,
               ''image'' \<mapsto> \<lparr>filename = ''page.jpg'', stream = ''jpeg''\<rparr>]\<rparr>"

section \<open>Facts about the string operations\<close>

lemma strip_Nil_iff: "strip s = [] \<longleftrightarrow> (\<forall>c\<in>set s. isspace c)"
proof
  assume "strip s = []"
  then have all: "\<forall>c\<in>set (dropWhile isspace s). isspace c"
    by (simp add: strip_def rstrip_def lstrip_def)
  have "dropWhile isspace s = []"
  proof (rule ccontr)
    assume ne: "dropWhile isspace s \<noteq> []"
    then have "\<not> isspace (hd (dropWhile isspace s))" by (rule hd_dropWhile)
    moreover from ne have "hd (dropWhile isspace s) \<in> set (dropWhile isspace s)" by simp
    ultimately show False using all by blast
  qed
  then show "\<forall>c\<in>set s. isspace c" by simp
next
  assume "\<forall>c\<in>set s. isspace c"
  then have "lstrip s = []" by (simp add: lstrip_def)
  then show "strip s = []" by (simp add: strip_def rstrip_def)
qed

lemma replace_Nil: "replace [] old new = (if old = [] then new else [])"
  by simp

lemma replace_one_Cons:
  "replace (c # cs) [a] new =
     (if c = a then new @ replace cs [a] new else c # replace cs [a] new)"
  by (subst replace.simps) simp

lemma replace_two_single: "replace [c] [a, b] new = [c]"
  by (subst replace.simps) simp

lemma replace_two_Cons:
  "replace (c # d # cs) [a, b] new =
     (if c = a \<and> d = b then new @ replace cs [a, b] new
      else c # replace (d # cs) [a, b] new)"
  by (subst replace.simps) simp

declare replace.simps [simp del]

lemmas replace_eval = replace_Nil replace_one_Cons replace_two_single replace_two_Cons

text \<open>
  The pass over the double line breaks changes nothing in what the pass over the single
  ones gives: \<open><br><br>\<close> is what two single line breaks become anyway.
\<close>

lemma replace_double_then_single:
  "replace (replace s ''\<newline>\<newline>'' ''<br><br>'') ''\<newline>'' ''<br>'' = replace s ''\<newline>'' ''<br>''"
proof (induction s rule: induct_list012)
  case 1
  show ?case by (simp add: replace_Nil)
next
  case (2 x)
  show ?case by (simp add: replace_two_single)
next
  case (3 x y zs)
  then show ?case by (simp add: replace_two_Cons replace_one_Cons)
qed

section \<open>The prompt\<close>

text \<open>
  C2. For every mode, question and notes the prompt is four sections in this order: the
  constant preamble, written out below; the mode line, which is the line of \<open>explain\<close>,
  \<open>exam\<close> or \<open>revision\<close> when the mode is one of them and \<open>Mode: EXPLAIN.\<close> otherwise;
  the notes block; and the question followed by the \<open>ANSWER:\<close> cue. The notes block holds
  the placeholder \<open>(none)\<close> when the notes are empty or all whitespace, and the whole
  notes text, unchanged, otherwise.
\<close>

theorem build_prompt_sections:
  "build_prompt mode question notes_text =
     concat
       [''You are FocusStudy AI, an exam-focused tutor.\<newline>'' @
        ''Use ONLY the provided notes. If notes do not contain the answer, say:\<newline>'' @
        [CHR 0x22] @ ''I can't find this in the provided notes.'' @ [CHR 0x22] @
        '' Then give a short general hint (2-3 lines max).\<newline>'' @
        ''Format cleanly using headings and bullet points.\<newline>'',
        if mode = ''explain'' then
          ''Mode: EXPLAIN. Explain simply and give one small example.\<newline>''
        else if mode = ''exam'' then
          ''Mode: EXAM READY. Write a structured exam answer with headings + key points.\<newline>''
        else if mode = ''revision'' then ''Mode: REVISION. Give crisp revision bullets.\<newline>''
        else ''Mode: EXPLAIN.\<newline>'',
        notes_block notes_text,
        ''\<newline>QUESTION:\<newline>'' @ question @ ''\<newline>\<newline>ANSWER:\<newline>'']
   \<and> build_prompt mode question notes_text =
       concat [base, mode_line mode, notes_block notes_text,
               ''\<newline>QUESTION:\<newline>'' @ question @ ''\<newline>\<newline>ANSWER:\<newline>'']
   \<and> ((\<forall>c\<in>set notes_text. isspace c) \<longrightarrow> notes_block notes_text = ''\<newline>NOTES: (none)\<newline>'')
   \<and> ((\<exists>c\<in>set notes_text. \<not> isspace c) \<longrightarrow>
        notes_block notes_text = ''\<newline>NOTES:\<newline>'' @ notes_text @ ''\<newline>'')"
proof -
  have sections: "build_prompt mode question notes_text =
     concat [base, mode_line mode, notes_block notes_text,
             ''\<newline>QUESTION:\<newline>'' @ question @ ''\<newline>\<newline>ANSWER:\<newline>'']"
    by (simp add: build_prompt_def)
  have preamble: "base =
        ''You are FocusStudy AI, an exam-focused tutor.\<newline>'' @
        ''Use ONLY the provided notes. If notes do not contain the answer, say:\<newline>'' @
        [CHR 0x22] @ ''I can't find this in the provided notes.'' @ [CHR 0x22] @
        '' Then give a short general hint (2-3 lines max).\<newline>'' @
        ''Format cleanly using headings and bullet points.\<newline>''"
    by (simp add: base_def)
  have line: "mode_line mode =
       (if mode = ''explain'' then
          ''Mode: EXPLAIN. Explain simply and give one small example.\<newline>''
        else if mode = ''exam'' then
          ''Mode: EXAM READY. Write a structured exam answer with headings + key points.\<newline>''
        else if mode = ''revision'' then ''Mode: REVISION. Give crisp revision bullets.\<newline>''
        else ''Mode: EXPLAIN.\<newline>'')"
    by (simp add: mode_line_def mode_lines_def dict_get_def)
  have written: "build_prompt mode question notes_text =
     concat
       [''You are FocusStudy AI, an exam-focused tutor.\<newline>'' @
        ''Use ONLY the provided notes. If notes do not contain the answer, say:\<newline>'' @
        [CHR 0x22] @ ''I can't find this in the provided notes.'' @ [CHR 0x22] @
        '' Then give a short general hint (2-3 lines max).\<newline>'' @
        ''Format cleanly using headings and bullet points.\<newline>'',
        if mode = ''explain'' then
          ''Mode: EXPLAIN. Explain simply and give one small example.\<newline>''
        else if mode = ''exam'' then
          ''Mode: EXAM READY. Write a structured exam answer with headings + key points.\<newline>''
        else if mode = ''revision'' then ''Mode: REVISION. Give crisp revision bullets.\<newline>''
        else ''Mode: EXPLAIN.\<newline>'',
        notes_block notes_text,
        ''\<newline>QUESTION:\<newline>'' @ question @ ''\<newline>\<newline>ANSWER:\<newline>'']"
    unfolding sections preamble line ..
  have blank: "(\<forall>c\<in>set notes_text. isspace c) \<longrightarrow> notes_block notes_text = ''\<newline>NOTES: (none)\<newline>''"
    using strip_Nil_iff [of notes_text] by (simp add: notes_block_def)
  have given: "(\<exists>c\<in>set notes_text. \<not> isspace c) \<longrightarrow>
        notes_block notes_text = ''\<newline>NOTES:\<newline>'' @ notes_text @ ''\<newline>''"
    using strip_Nil_iff [of notes_text] by (auto simp add: notes_block_def)
  from written sections blank given show ?thesis by blast
qed

theorem build_prompt_sections_witness:
  "list_all isspace '' '' \<and> notes_block '' '' = ''\<newline>NOTES: (none)\<newline>''
   \<and> \<not> list_all isspace ''H2O'' \<and> notes_block ''H2O'' = ''\<newline>NOTES:\<newline>H2O\<newline>''
   \<and> build_prompt ''exam'' ''Why?'' ''H2O'' =
       ''You are FocusStudy AI, an exam-focused tutor.\<newline>'' @
       ''Use ONLY the provided notes. If notes do not contain the answer, say:\<newline>'' @
       [CHR 0x22] @ ''I can't find this in the provided notes.'' @ [CHR 0x22] @
       '' Then give a short general hint (2-3 lines max).\<newline>'' @
       ''Format cleanly using headings and bullet points.\<newline>'' @
       ''Mode: EXAM READY. Write a structured exam answer with headings + key points.\<newline>'' @
       ''\<newline>NOTES:\<newline>H2O\<newline>'' @
       ''\<newline>QUESTION:\<newline>Why?\<newline>\<newline>ANSWER:\<newline>''
   \<and> build_prompt ''quiz'' ''Why?'' '' '' =
       ''You are FocusStudy AI, an exam-focused tutor.\<newline>'' @
       ''Use ONLY the provided notes. If notes do not contain the answer, say:\<newline>'' @
       [CHR 0x22] @ ''I can't find this in the provided notes.'' @ [CHR 0x22] @
       '' Then give a short general hint (2-3 lines max).\<newline>'' @
       ''Format cleanly using headings and bullet points.\<newline>'' @
       ''Mode: EXPLAIN.\<newline>'' @
       ''\<newline>NOTES: (none)\<newline>'' @
       ''\<newline>QUESTION:\<newline>Why?\<newline>\<newline>ANSWER:\<newline>''"
proof -
  have blank: "\<forall>c\<in>set '' ''. isspace c" by (simp add: isspace_def)
  have nonblank: "\<exists>c\<in>set ''H2O''. \<not> isspace c" by (simp add: isspace_def)
  note exam = build_prompt_sections [of "''exam''" "''Why?''" "''H2O''"]
  note quiz = build_prompt_sections [of "''quiz''" "''Why?''" "'' ''"]
  have b1: "notes_block '' '' = ''\<newline>NOTES: (none)\<newline>''"
    using quiz [THEN conjunct2, THEN conjunct2, THEN conjunct1] blank by blast
  have b2: "notes_block ''H2O'' = ''\<newline>NOTES:\<newline>H2O\<newline>''"
    using exam [THEN conjunct2, THEN conjunct2, THEN conjunct2] nonblank by simp
  have p1: "build_prompt ''exam'' ''Why?'' ''H2O'' =
       ''You are FocusStudy AI, an exam-focused tutor.\<newline>'' @
       ''Use ONLY the provided notes. If notes do not contain the answer, say:\<newline>'' @
       [CHR 0x22] @ ''I can't find this in the provided notes.'' @ [CHR 0x22] @
       '' Then give a short general hint (2-3 lines max).\<newline>'' @
       ''Format cleanly using headings and bullet points.\<newline>'' @
       ''Mode: EXAM READY. Write a structured exam answer with headings + key points.\<newline>'' @
       ''\<newline>NOTES:\<newline>H2O\<newline>'' @
       ''\<newline>QUESTION:\<newline>Why?\<newline>\<newline>ANSWER:\<newline>''"
    using exam [THEN conjunct1] by (simp add: b2)
  have p2: "build_prompt ''quiz'' ''Why?'' '' '' =
       ''You are FocusStudy AI, an exam-focused tutor.\<newline>'' @
       ''Use ONLY the provided notes. If notes do not contain the answer, say:\<newline>'' @
       [CHR 0x22] @ ''I can't find this in the provided notes.'' @ [CHR 0x22] @
       '' Then give a short general hint (2-3 lines max).\<newline>'' @
       ''Format cleanly using headings and bullet points.\<newline>'' @
       ''Mode: EXPLAIN.\<newline>'' @
       ''\<newline>NOTES: (none)\<newline>'' @
       ''\<newline>QUESTION:\<newline>Why?\<newline>\<newline>ANSWER:\<newline>''"
    using quiz [THEN conjunct1] by (simp add: b1)
  have l1: "list_all isspace '' ''" using blank by (simp add: list_all_iff)
  have l2: "\<not> list_all isspace ''H2O''" using nonblank by (simp add: list_all_iff)
  from l1 b1 l2 b2 p1 p2 show ?thesis by blast
qed

text \<open>
  C3, as stated: a mode outside \<open>explain\<close>, \<open>exam\<close>, \<open>revision\<close> gets the mode line of
  \<open>explain\<close>. It fails at the mode \<open>quiz\<close>.
\<close>

theorem mode_line_unknown_counterexample:
  "''quiz'' \<notin> {''explain'', ''exam'', ''revision''} \<and> mode_line ''quiz'' \<noteq> mode_line ''explain''"
  by (simp add: mode_line_def mode_lines_def dict_get_def)

text \<open>
  C3, amended: a mode outside \<open>explain\<close>, \<open>exam\<close>, \<open>revision\<close> gets the fixed line
  \<open>Mode: EXPLAIN.\<close>, which is the line of \<open>explain\<close> without its sentence
  \<open>Explain simply and give one small example.\<close>
\<close>

theorem mode_line_unknown:
  "mode \<notin> {''explain'', ''exam'', ''revision''} \<Longrightarrow>
     mode_line mode = ''Mode: EXPLAIN.\<newline>''
     \<and> mode_line ''explain'' =
         ''Mode: EXPLAIN.'' @ '' Explain simply and give one small example.'' @ ''\<newline>''"
  by (simp add: mode_line_def mode_lines_def dict_get_def)

theorem mode_line_unknown_witness:
  "''quiz'' \<notin> {''explain'', ''exam'', ''revision''} \<and> mode_line ''quiz'' = ''Mode: EXPLAIN.\<newline>''"
  using mode_line_unknown [of "''quiz''"] by simp

section \<open>The formatter\<close>

text \<open>
  C9, as stated: the pass over the double line breaks runs before the pass over the
  single ones, so that a double break never becomes two single-break markers. It fails
  at \<open>a\<close>, two line feeds, \<open>b\<close>: the double break becomes \<open><br><br>\<close>, which is two
  markers \<open><br>\<close>.
\<close>

theorem format_html_double_break_counterexample:
  "format_html ''a\<newline>\<newline>b'' = ''a'' @ ''<br>'' @ ''<br>'' @ ''b''"
  by (simp add: format_html_def replace_eval)

text \<open>
  C9, amended: the empty string gives the empty string; every input has its line endings
  normalised, then its double line breaks replaced by \<open><br><br>\<close>, then its single line
  breaks replaced by \<open><br>\<close>; and as \<open><br><br>\<close> is two markers \<open><br>\<close>, the result is
  that of replacing every line break by \<open><br>\<close> after the normalisation.
\<close>

theorem format_html_passes:
  "format_html [] = []
   \<and> format_html t =
       replace (replace (replace t [CHR 0x0D, CHR 0x0A] ''\<newline>'') ''\<newline>\<newline>'' ''<br><br>'')
         ''\<newline>'' ''<br>''
   \<and> format_html t = replace (replace t [CHR 0x0D, CHR 0x0A] ''\<newline>'') ''\<newline>'' ''<br>''"
proof -
  have "format_html t =
       replace (replace (replace t [CHR 0x0D, CHR 0x0A] ''\<newline>'') ''\<newline>\<newline>'' ''<br><br>'')
         ''\<newline>'' ''<br>''"
    by (simp add: format_html_def replace_Nil)
  then show ?thesis
    by (simp add: replace_double_then_single) (simp add: format_html_def)
qed

section \<open>The text extractor\<close>

lemma pages_loop_all_ok:
  "pages_loop (map Inr texts) parts =
     Inr (parts @ filter (\<lambda>t. t \<noteq> []) (map (\<lambda>x. strip (opt_or x [])) texts))"
  by (induction texts arbitrary: parts) (simp_all add: Let_def)

lemma pages_loop_failure:
  "\<exists>p\<in>set pages. isl p \<Longrightarrow> isl (pages_loop pages parts)"
proof (induction pages arbitrary: parts)
  case Nil
  then show ?case by simp
next
  case (Cons p ps)
  show ?case
  proof (cases p)
    case (Inl e)
    then show ?thesis by simp
  next
    case (Inr x)
    with Cons.prems have "\<exists>q\<in>set ps. isl q" by auto
    then have "isl (pages_loop ps parts')" for parts' by (rule Cons.IH)
    with Inr show ?thesis by (simp add: Let_def)
  qed
qed

lemma filter_blank_pages:
  "\<forall>x\<in>set texts. \<forall>c\<in>set (opt_or x []). isspace c \<Longrightarrow>
     filter (\<lambda>t. t \<noteq> []) (map (\<lambda>x. strip (opt_or x [])) texts) = []"
  by (induction texts) (simp_all add: strip_Nil_iff)

lemma strip_Nil: "strip [] = []"
  by (simp add: strip_Nil_iff)

text \<open>
  C5. \<open>extract_pdf_text\<close> never raises: it returns a string after one call of the PDF
  library. When the library fails, on the document or on one of its pages, the string is
  empty. When it gives the text of every page, the string is the stripped join, with a
  blank line between them, of the stripped page texts that are not empty; a document
  whose pages all give no text or whitespace only gives the empty string.
\<close>

theorem extract_pdf_text_never_raises:
  "(\<exists>s. extract_pdf_text env f tr = (Inr s, tr @ [PdfReader_call (stream f)]))
   \<and> (\<forall>e. PdfReader env (stream f) = Inl e \<longrightarrow> fst (extract_pdf_text env f tr) = Inr [])
   \<and> (\<forall>pages. PdfReader env (stream f) = Inr pages \<and> (\<exists>p\<in>set pages. isl p) \<longrightarrow>
         fst (extract_pdf_text env f tr) = Inr [])
   \<and> (\<forall>texts. PdfReader env (stream f) = Inr (map Inr texts) \<longrightarrow>
         fst (extract_pdf_text env f tr) =
           Inr (strip (join ''\<newline>\<newline>''
                  (filter (\<lambda>t. t \<noteq> []) (map (\<lambda>x. strip (opt_or x [])) texts)))))
   \<and> (\<forall>texts. PdfReader env (stream f) = Inr (map Inr texts) \<and>
          (\<forall>x\<in>set texts. \<forall>c\<in>set (opt_or x []). isspace c) \<longrightarrow>
         fst (extract_pdf_text env f tr) = Inr [])"
proof -
  have total: "\<exists>s. extract_pdf_text env f tr = (Inr s, tr @ [PdfReader_call (stream f)])"
    by (simp add: extract_pdf_text_def split: sum.split)
  have parse: "fst (extract_pdf_text env f tr) = Inr []" if "PdfReader env (stream f) = Inl e" for e
    using that by (simp add: extract_pdf_text_def extract_pdf_text_try_def)
  have page: "fst (extract_pdf_text env f tr) = Inr []"
    if "PdfReader env (stream f) = Inr pages" and "\<exists>p\<in>set pages. isl p" for pages
  proof -
    from that(2) have "isl (pages_loop pages [])" by (rule pages_loop_failure)
    then obtain e where "pages_loop pages [] = Inl e" by (cases "pages_loop pages []") auto
    with that(1) show ?thesis by (simp add: extract_pdf_text_def extract_pdf_text_try_def)
  qed
  have ok: "fst (extract_pdf_text env f tr) =
           Inr (strip (join ''\<newline>\<newline>''
                  (filter (\<lambda>t. t \<noteq> []) (map (\<lambda>x. strip (opt_or x [])) texts))))"
    if "PdfReader env (stream f) = Inr (map Inr texts)" for texts
    using that by (simp add: extract_pdf_text_def extract_pdf_text_try_def pages_loop_all_ok)
  have blank: "fst (extract_pdf_text env f tr) = Inr []"
    if "PdfReader env (stream f) = Inr (map Inr texts)"
      and "\<forall>x\<in>set texts. \<forall>c\<in>set (opt_or x []). isspace c" for texts
    using ok [OF that(1)] filter_blank_pages [OF that(2)] by (simp add: strip_Nil)
  from total parse page ok blank show ?thesis by blast
qed


theorem extract_pdf_text_never_raises_witness:
  "PdfReader (sample_env script_down) ''bad'' = Inl (Exn ''PdfReadError'' ''EOF marker not found'')
   \<and> fst (extract_pdf_text (sample_env script_down) \<lparr>filename = ''n.pdf'', stream = ''bad''\<rparr> []) = Inr []
   \<and> fst (extract_pdf_text (sample_env script_down) \<lparr>filename = ''n.pdf'', stream = ''torn''\<rparr> []) = Inr []
   \<and> fst (extract_pdf_text (sample_env script_down) \<lparr>filename = ''n.pdf'', stream = ''good''\<rparr> [])
       = Inr ''Cells\<newline>\<newline>Osmosis''
   \<and> fst (extract_pdf_text (sample_env script_down) \<lparr>filename = ''n.pdf'', stream = ''scan''\<rparr> []) = Inr []"
proof -
  let ?env = "sample_env script_down"
  have bad: "PdfReader ?env ''bad'' = Inl (Exn ''PdfReadError'' ''EOF marker not found'')"
    by (simp add: sample_env_def sample_PdfReader_def)
  have torn: "PdfReader ?env ''torn'' =
      Inr [Inr (Some ''Cells''), Inl (Exn ''KeyError'' ''/Contents'')]"
    by (simp add: sample_env_def sample_PdfReader_def)
  have good: "PdfReader ?env ''good'' = Inr (map Inr [Some '' Cells \<newline>'', None, Some ''Osmosis''])"
    by (simp add: sample_env_def sample_PdfReader_def)
  have scan: "PdfReader ?env ''scan'' = Inr (map Inr [None, Some '' \<newline>'', Some []])"
    by (simp add: sample_env_def sample_PdfReader_def)
  have blank: "\<forall>x\<in>set [None, Some '' \<newline>'', Some []]. \<forall>c\<in>set (opt_or x []). isspace c"
    by (simp add: opt_or_def str_or_def isspace_def)
  have stripped: "strip (join ''\<newline>\<newline>''
      (filter (\<lambda>t. t \<noteq> [])
         (map (\<lambda>x. strip (opt_or x [])) [Some '' Cells \<newline>'', None, Some ''Osmosis'']))) =
      ''Cells\<newline>\<newline>Osmosis''"
    by (simp add: opt_or_def str_or_def strip_def lstrip_def rstrip_def isspace_def)
  note at_bad = extract_pdf_text_never_raises
      [where env = ?env and f = "\<lparr>filename = ''n.pdf'', stream = ''bad''\<rparr>" and tr = "[]"]
  note at_torn = extract_pdf_text_never_raises
      [where env = ?env and f = "\<lparr>filename = ''n.pdf'', stream = ''torn''\<rparr>" and tr = "[]"]
  note at_good = extract_pdf_text_never_raises
      [where env = ?env and f = "\<lparr>filename = ''n.pdf'', stream = ''good''\<rparr>" and tr = "[]"]
  note at_scan = extract_pdf_text_never_raises
      [where env = ?env and f = "\<lparr>filename = ''n.pdf'', stream = ''scan''\<rparr>" and tr = "[]"]
  have r_bad: "fst (extract_pdf_text ?env \<lparr>filename = ''n.pdf'', stream = ''bad''\<rparr> []) = Inr []"
    using at_bad bad by simp
  have r_torn: "fst (extract_pdf_text ?env \<lparr>filename = ''n.pdf'', stream = ''torn''\<rparr> []) = Inr []"
    using at_torn torn by simp
  have "fst (extract_pdf_text ?env \<lparr>filename = ''n.pdf'', stream = ''good''\<rparr> []) =
      Inr (strip (join ''\<newline>\<newline>''
        (filter (\<lambda>t. t \<noteq> [])
           (map (\<lambda>x. strip (opt_or x [])) [Some '' Cells \<newline>'', None, Some ''Osmosis'']))))"
    using at_good good by (simp del: list.map filter.simps join.simps)
  then have r_good: "fst (extract_pdf_text ?env \<lparr>filename = ''n.pdf'', stream = ''good''\<rparr> []) =
      Inr ''Cells\<newline>\<newline>Osmosis''"
    by (simp only: stripped)
  have scan': "PdfReader ?env (stream \<lparr>filename = ''n.pdf'', stream = ''scan''\<rparr>) =
      Inr (map Inr [None, Some '' \<newline>'', Some []])"
    using scan by simp
  have r_scan: "fst (extract_pdf_text ?env \<lparr>filename = ''n.pdf'', stream = ''scan''\<rparr> []) = Inr []"
    by (rule at_scan [THEN conjunct2, THEN conjunct2, THEN conjunct2, THEN conjunct2,
          rule_format, OF conjI [OF scan' blank]])
  from bad r_bad r_torn r_good r_scan show ?thesis by blast
qed

section \<open>The generation client\<close>

lemma gen_count_append: "gen_count (a @ b) = gen_count a + gen_count b"
  by (simp add: gen_count_def)

lemma gen_count_simps:
  "gen_count [] = 0"
  "gen_count (Generate_call m c # tr) = Suc (gen_count tr)"
  "gen_count (Sleep_call d # tr) = gen_count tr"
  "gen_count (PdfReader_call b # tr) = gen_count tr"
  "gen_count (Image_open_call b # tr) = gen_count tr"
  by (simp_all add: gen_count_def)

lemma sleeps_of_append: "sleeps_of (a @ b) = sleeps_of a @ sleeps_of b"
  by (induction a rule: sleeps_of.induct) simp_all

text \<open>The three iterations written out.\<close>

lemma gen_with_retry_3:
  "gen_with_retry env model contents 3 tr =
     (case generate_content env (gen_count tr) model contents of
        Inr r1 \<Rightarrow> (Inr (response_text r1), tr @ [Generate_call model contents])
      | Inl e1 \<Rightarrow>
          (case generate_content env (gen_count tr + 1) model contents of
             Inr r2 \<Rightarrow>
               (Inr (response_text r2),
                tr @ [Generate_call model contents, Sleep_call 2, Generate_call model contents])
           | Inl e2 \<Rightarrow>
               (case generate_content env (gen_count tr + 2) model contents of
                  Inr r3 \<Rightarrow>
                    (Inr (response_text r3),
                     tr @ [Generate_call model contents, Sleep_call 2,
                           Generate_call model contents, Sleep_call 4,
                           Generate_call model contents])
                | Inl e3 \<Rightarrow>
                    (Inl e3,
                     tr @ [Generate_call model contents, Sleep_call 2,
                           Generate_call model contents, Sleep_call 4,
                           Generate_call model contents, Sleep_call 6]))))"
  by (simp add: gen_with_retry_def numeral_3_eq_3 call_generate_content_def
      gen_count_append gen_count_simps split: sum.split)

lemma all_less_3: "(\<forall>j<3. P j) \<longleftrightarrow> P 0 \<and> P 1 \<and> P (2::nat)"
  by (auto simp add: numeral_3_eq_3 less_Suc_eq numeral_2_eq_2)

lemma all_less_2: "(\<forall>j<2. P j) \<longleftrightarrow> P 0 \<and> P (1::nat)"
  by (auto simp add: less_Suc_eq numeral_2_eq_2)

lemma isl_conv: "isl x \<longleftrightarrow> (\<exists>e. x = Inl e)"
  by (cases x) simp_all

text \<open>
  C1. With three tries, the generation client calls the service at most three times. When
  the attempts before attempt \<open>k + 1\<close> fail and that attempt (one of the three) succeeds,
  it returns the text of that attempt's response (the string of its \<open>text\<close> attribute,
  and the empty string when the attribute is absent or \<open>None\<close>) and has made \<open>k + 1\<close>
  calls, no more. When the three attempts fail, it raises the failure of the third,
  unchanged, after three calls.
\<close>

theorem gen_with_retry_attempts:
  "(let run = gen_with_retry env model contents 3 tr;
        attempt = (\<lambda>j. generate_content env (gen_count tr + j) model contents)
    in gen_count (snd run) \<le> gen_count tr + 3
       \<and> (\<forall>k<3. (\<forall>j<k. isl (attempt j)) \<and> attempt k = Inr (Response a) \<longrightarrow>
             fst run = Inr (case a of Absent \<Rightarrow> [] | PyNone \<Rightarrow> [] | PyStr s \<Rightarrow> s)
             \<and> gen_count (snd run) = gen_count tr + (k + 1))
       \<and> (\<forall>e. (\<forall>j<3. isl (attempt j)) \<and> attempt 2 = Inl e \<longrightarrow>
             fst run = Inl e \<and> gen_count (snd run) = gen_count tr + 3))"
proof -
  let ?run = "gen_with_retry env model contents 3 tr"
  let ?attempt = "\<lambda>j. generate_content env (gen_count tr + j) model contents"
  let ?text = "case a of Absent \<Rightarrow> [] | PyNone \<Rightarrow> [] | PyStr s \<Rightarrow> s"
  have of_attr: "response_text (Response a) = ?text"
    by (cases a) (simp_all add: response_text_def str_or_def)
  have bound: "gen_count (snd ?run) \<le> gen_count tr + 3"
    by (simp add: gen_with_retry_3 gen_count_append gen_count_simps split: sum.split)
  have succ: "fst ?run = Inr ?text \<and> gen_count (snd ?run) = gen_count tr + (k + 1)"
    if "k < 3" and "\<forall>j<k. isl (?attempt j)" and "?attempt k = Inr (Response a)" for k
  proof -
    from that(1) consider "k = 0" | "k = 1" | "k = 2" by linarith
    then show ?thesis
    proof cases
      case 1
      with that(3) show ?thesis
        by (simp add: gen_with_retry_3 gen_count_append gen_count_simps of_attr)
    next
      case 2
      with that(2) obtain e1 where "?attempt 0 = Inl e1" by (auto simp add: isl_conv)
      with 2 that(3) show ?thesis
        by (simp add: gen_with_retry_3 gen_count_append gen_count_simps of_attr)
    next
      case 3
      with that(2) obtain e1 e2 where "?attempt 0 = Inl e1" "?attempt 1 = Inl e2"
        by (auto simp add: all_less_2 isl_conv)
      with 3 that(3) show ?thesis
        by (simp add: gen_with_retry_3 gen_count_append gen_count_simps of_attr)
    qed
  qed
  have fail: "fst ?run = Inl e \<and> gen_count (snd ?run) = gen_count tr + 3"
    if "\<forall>j<3. isl (?attempt j)" and "?attempt 2 = Inl e" for e
  proof -
    from that(1) obtain e1 e2 where "?attempt 0 = Inl e1" "?attempt 1 = Inl e2"
      by (auto simp add: all_less_3 isl_conv)
    with that(2) show ?thesis
      by (simp add: gen_with_retry_3 gen_count_append gen_count_simps)
  qed
  from bound succ fail show ?thesis unfolding Let_def by blast
qed

theorem gen_with_retry_attempts_witness:
  "fst (gen_with_retry (sample_env script_flaky) ''m'' (Text ''hi'') 3 []) = Inr ''Water moves.''
   \<and> gen_count (snd (gen_with_retry (sample_env script_flaky) ''m'' (Text ''hi'') 3 [])) = 2
   \<and> fst (gen_with_retry (sample_env script_no_text) ''m'' (Text ''hi'') 3 []) = Inr []
   \<and> gen_count (snd (gen_with_retry (sample_env script_no_text) ''m'' (Text ''hi'') 3 [])) = 1
   \<and> fst (gen_with_retry (sample_env script_down) ''m'' (Text ''hi'') 3 [])
       = Inl (Exn ''ServerError'' ''third failure'')
   \<and> gen_count (snd (gen_with_retry (sample_env script_down) ''m'' (Text ''hi'') 3 [])) = 3"
  using gen_with_retry_attempts
      [where env = "sample_env script_flaky" and model = "''m''" and contents = "Text ''hi''"
         and tr = "[]" and a = "PyStr ''Water moves.''"]
    gen_with_retry_attempts
      [where env = "sample_env script_no_text" and model = "''m''" and contents = "Text ''hi''"
         and tr = "[]" and a = Absent]
    gen_with_retry_attempts
      [where env = "sample_env script_down" and model = "''m''" and contents = "Text ''hi''"
         and tr = "[]"]
  by (simp add: Let_def all_less_3 all_less_2 sample_env_def script_flaky_def script_down_def
      script_no_text_def gen_count_simps)

text \<open>
  C8. Whatever the service answers, the waits of one call of the generation client add
  up to at most 12. When the three attempts fail, the client waits 2 after the first, 4
  after the second and 6 after the third, 12 in all, before it raises.
\<close>

theorem gen_with_retry_backoff:
  "(\<exists>new. snd (gen_with_retry env model contents 3 tr) = tr @ new
          \<and> sum_list (sleeps_of new) \<le> 12)
   \<and> ((\<forall>j<3. isl (generate_content env (gen_count tr + j) model contents)) \<longrightarrow>
        isl (fst (gen_with_retry env model contents 3 tr))
        \<and> snd (gen_with_retry env model contents 3 tr) =
            tr @ [Generate_call model contents, Sleep_call 2,
                  Generate_call model contents, Sleep_call 4,
                  Generate_call model contents, Sleep_call 6]
        \<and> sleeps_of (snd (gen_with_retry env model contents 3 tr)) = sleeps_of tr @ [2, 4, 6]
        \<and> sum_list (sleeps_of (snd (gen_with_retry env model contents 3 tr))) =
            sum_list (sleeps_of tr) + 12)"
proof -
  have bound: "\<exists>new. snd (gen_with_retry env model contents 3 tr) = tr @ new
          \<and> sum_list (sleeps_of new) \<le> 12"
    by (simp add: gen_with_retry_3 split: sum.split)
  have worst: "isl (fst (gen_with_retry env model contents 3 tr))
        \<and> snd (gen_with_retry env model contents 3 tr) =
            tr @ [Generate_call model contents, Sleep_call 2,
                  Generate_call model contents, Sleep_call 4,
                  Generate_call model contents, Sleep_call 6]
        \<and> sleeps_of (snd (gen_with_retry env model contents 3 tr)) = sleeps_of tr @ [2, 4, 6]
        \<and> sum_list (sleeps_of (snd (gen_with_retry env model contents 3 tr))) =
            sum_list (sleeps_of tr) + 12"
    if "\<forall>j<3. isl (generate_content env (gen_count tr + j) model contents)"
  proof -
    from that obtain e1 e2 e3 where
      "generate_content env (gen_count tr) model contents = Inl e1"
      "generate_content env (gen_count tr + 1) model contents = Inl e2"
      "generate_content env (gen_count tr + 2) model contents = Inl e3"
      by (auto simp add: all_less_3 isl_conv)
    then show ?thesis
      by (simp add: gen_with_retry_3 sleeps_of_append)
  qed
  from bound worst show ?thesis by blast
qed

theorem gen_with_retry_backoff_witness:
  "list_all (\<lambda>j. isl (generate_content (sample_env script_down) (gen_count [] + j) ''m'' (Text ''hi'')))
     [0, 1, 2]
   \<and> sleeps_of (snd (gen_with_retry (sample_env script_down) ''m'' (Text ''hi'') 3 [])) = [2, 4, 6]
   \<and> sum_list (sleeps_of (snd (gen_with_retry (sample_env script_down) ''m'' (Text ''hi'') 3 []))) = 12"
proof -
  have down: "\<forall>j<3. isl (generate_content (sample_env script_down) (gen_count [] + j) ''m''
      (Text ''hi''))"
    by (simp add: sample_env_def script_down_def)
  note worst = gen_with_retry_backoff
      [where env = "sample_env script_down" and model = "''m''" and contents = "Text ''hi''"
         and tr = "[]", THEN conjunct2, THEN mp, OF down]
  from worst have "sleeps_of (snd (gen_with_retry (sample_env script_down) ''m'' (Text ''hi'') 3 []))
      = [2, 4, 6]"
    by simp
  moreover from worst
  have "sum_list (sleeps_of (snd (gen_with_retry (sample_env script_down) ''m'' (Text ''hi'') 3 [])))
      = 12"
    by simp
  moreover
  have "list_all (\<lambda>j. isl (generate_content (sample_env script_down) (gen_count [] + j) ''m''
      (Text ''hi''))) [0, 1, 2]"
    by (simp add: sample_env_def script_down_def)
  ultimately show ?thesis by blast
qed

section \<open>The orchestrator\<close>

lemma home_POST:
  "req_method req = ''POST'' \<Longrightarrow> strip (opt_or (form req ''question'') []) \<noteq> [] \<Longrightarrow>
     home env req tr =
       home_pdf env (files req ''pdf'') (files req ''image'')
         (dict_get (form req) ''mode'' ''explain'') (strip (opt_or (form req ''question'') [])) tr"
  by (simp add: home_def Let_def)

lemma home_pdf_passed:
  "pdf_step env pdf tr notes_text tr1 \<Longrightarrow>
     home_pdf env pdf image' mode question tr = home_image env image' mode question notes_text tr1"
  by (auto simp add: pdf_step_def home_pdf_def split: option.splits if_splits)

lemma extract_pdf_text_trace:
  "snd (extract_pdf_text env f tr) = tr @ [PdfReader_call (stream f)]"
  by (simp add: extract_pdf_text_def split: sum.split)

text \<open>
  C4. When the question field is absent, empty or whitespace only, \<open>home\<close> leaves the
  trace as it was: it calls neither the PDF library, nor the image decoder, nor the
  generation service. For a submitted form (request method \<open>POST\<close>) its result is the validation
  error.
\<close>

theorem home_blank_question:
  "\<forall>c\<in>set (opt_or (form req ''question'') []). isspace c \<Longrightarrow>
     snd (home env req tr) = tr
     \<and> (req_method req = ''POST'' \<longrightarrow>
          fst (home env req tr) = Inr \<lparr>answer = [], error = ''Please type your question.''\<rparr>)"
  by (simp add: home_def Let_def strip_Nil_iff)


theorem home_blank_question_witness:
  "list_all isspace (opt_or (form req_blank ''question'') [])
   \<and> req_method req_blank = ''POST''
   \<and> home (sample_env script_down) req_blank [] =
       (Inr \<lparr>answer = [], error = ''Please type your question.''\<rparr>, [])"
proof -
  have blank: "\<forall>c\<in>set (opt_or (form req_blank ''question'') []). isspace c"
    by (simp add: req_blank_def opt_or_def str_or_def isspace_def)
  have post: "req_method req_blank = ''POST''"
    by (simp add: req_blank_def)
  from home_blank_question [OF blank, of "sample_env script_down" "[]"] blank post
  show ?thesis by (simp add: prod_eq_iff list_all_iff)
qed

text \<open>
  C6. When a PDF is attached and its extraction gives the empty string, \<open>home\<close> does not
  call the generation service. The extraction is run exactly for a submitted form whose
  question is not blank; \<open>home\<close> then ends with the message for an unreadable document
  and no answer, and the only call made is the one to the PDF library: the image step
  and the generation step are not run.
\<close>

theorem home_unreadable_pdf:
  assumes "files req ''pdf'' = Some p" and "filename p \<noteq> []"
    and "fst (extract_pdf_text env p tr) = Inr []"
  shows "gen_count (snd (home env req tr)) = gen_count tr
     \<and> (snd (home env req tr) \<noteq> tr \<longleftrightarrow>
          req_method req = ''POST'' \<and> strip (opt_or (form req ''question'') []) \<noteq> [])
     \<and> (req_method req = ''POST'' \<and> strip (opt_or (form req ''question'') []) \<noteq> [] \<longrightarrow>
          home env req tr =
            (Inr \<lparr>answer = [],
                  error = ''This PDF looks scanned/handwritten. Please upload clear images instead.''\<rparr>,
             tr @ [PdfReader_call (stream p)]))"
proof -
  from assms(3) have ex: "extract_pdf_text env p tr = (Inr [], tr @ [PdfReader_call (stream p)])"
    using extract_pdf_text_trace [of env p tr] by (simp add: prod_eq_iff)
  have reached: "home env req tr =
            (Inr \<lparr>answer = [],
                  error = ''This PDF looks scanned/handwritten. Please upload clear images instead.''\<rparr>,
             tr @ [PdfReader_call (stream p)])"
    if "req_method req = ''POST''" and "strip (opt_or (form req ''question'') []) \<noteq> []"
    using that assms(1,2) ex by (simp add: home_POST home_pdf_def)
  have stopped: "snd (home env req tr) = tr"
    if "\<not> (req_method req = ''POST'' \<and> strip (opt_or (form req ''question'') []) \<noteq> [])"
    using that by (auto simp add: home_def Let_def)
  have count: "gen_count (snd (home env req tr)) = gen_count tr"
  proof (cases "req_method req = ''POST'' \<and> strip (opt_or (form req ''question'') []) \<noteq> []")
    case True
    then show ?thesis using reached by (simp add: gen_count_append gen_count_simps)
  next
    case False
    then show ?thesis using stopped by simp
  qed
  have run: "snd (home env req tr) \<noteq> tr \<longleftrightarrow>
      req_method req = ''POST'' \<and> strip (opt_or (form req ''question'') []) \<noteq> []"
  proof (cases "req_method req = ''POST'' \<and> strip (opt_or (form req ''question'') []) \<noteq> []")
    case True
    then show ?thesis using reached by simp
  next
    case False
    then show ?thesis using stopped by simp
  qed
  from count run reached show ?thesis by blast
qed

theorem home_unreadable_pdf_witness:
  "files req_scan ''pdf'' = Some \<lparr>filename = ''scan.pdf'', stream = ''scan''\<rparr>
   \<and> fst (extract_pdf_text (sample_env script_down) \<lparr>filename = ''scan.pdf'', stream = ''scan''\<rparr> [])
       = Inr []
   \<and> req_method req_scan = ''POST'' \<and> strip (opt_or (form req_scan ''question'') []) \<noteq> []
   \<and> home (sample_env script_down) req_scan [] =
       (Inr \<lparr>answer = [],
             error = ''This PDF looks scanned/handwritten. Please upload clear images instead.''\<rparr>,
        [PdfReader_call ''scan''])"
proof -
  let ?p = "\<lparr>filename = ''scan.pdf'', stream = ''scan''\<rparr>"
  have pdf: "files req_scan ''pdf'' = Some ?p"
    by (simp add: req_scan_def)
  have name: "filename ?p \<noteq> []" by simp
  have empty: "fst (extract_pdf_text (sample_env script_down) ?p []) = Inr []"
    by (simp add: extract_pdf_text_def extract_pdf_text_try_def sample_env_def
        sample_PdfReader_def opt_or_def str_or_def strip_def lstrip_def rstrip_def isspace_def)
  have post: "req_method req_scan = ''POST''"
    by (simp add: req_scan_def)
  have question: "strip (opt_or (form req_scan ''question'') []) \<noteq> []"
    by (simp add: req_scan_def opt_or_def str_or_def strip_def lstrip_def rstrip_def isspace_def)
  note stop = home_unreadable_pdf [OF pdf name empty, THEN conjunct2, THEN conjunct2, THEN mp,
      OF conjI [OF post question]]
  from stop pdf empty post question show ?thesis by simp
qed

text \<open>
  C7. A request that reaches the image step with an image attached: when the image is
  decoded and the generation client then raises \<open>e\<close>, \<open>ocr_image_with_gemini\<close> raises the
  same \<open>e\<close>, and \<open>home\<close> ends with the error \<open>Image OCR failed:\<close> followed by the message
  of \<open>e\<close>, no answer, and the trace as the failed client left it: no prompt is sent for
  an answer.
\<close>

theorem home_transcription_failure:
  assumes "req_method req = ''POST''" and "strip (opt_or (form req ''question'') []) \<noteq> []"
    and "files req ''image'' = Some f" and "filename f \<noteq> []"
    and "pdf_step env (files req ''pdf'') tr notes_text tr0"
    and "Image_open env (stream f) = Inr img"
    and "gen_with_retry env VISION_MODEL (Parts [TextPart ocr_prompt, ImagePart img]) 3
           (tr0 @ [Image_open_call (stream f)]) = (Inl e, tr1)"
  shows "ocr_image_with_gemini env f tr0 = (Inl e, tr1)
     \<and> home env req tr = (Inr \<lparr>answer = [], error = ''Image OCR failed: '' @ exn_str e\<rparr>, tr1)"
proof -
  from assms(6,7) have ocr: "ocr_image_with_gemini env f tr0 = (Inl e, tr1)"
    by (simp add: ocr_image_with_gemini_def Let_def)
  have "home env req tr =
      home_image env (Some f) (dict_get (form req) ''mode'' ''explain'')
        (strip (opt_or (form req ''question'') [])) notes_text tr0"
    using assms(1-3) home_pdf_passed [OF assms(5)] by (simp add: home_POST)
  with ocr assms(4) show ?thesis by (simp add: home_image_def)
qed


theorem home_transcription_failure_witness:
  "req_method req_image = ''POST'' \<and> strip (opt_or (form req_image ''question'') []) \<noteq> []
   \<and> files req_image ''image'' = Some \<lparr>filename = ''page.jpg'', stream = ''jpeg''\<rparr>
   \<and> pdf_step (sample_env script_down) (files req_image ''pdf'') [] [] []
   \<and> Image_open (sample_env script_down) ''jpeg'' = Inr 4
   \<and> home (sample_env script_down) req_image [] =
       (Inr \<lparr>answer = [], error = ''Image OCR failed: third failure''\<rparr>,
        [Image_open_call ''jpeg'',
         Generate_call VISION_MODEL (Parts [TextPart ocr_prompt, ImagePart 4]), Sleep_call 2,
         Generate_call VISION_MODEL (Parts [TextPart ocr_prompt, ImagePart 4]), Sleep_call 4,
         Generate_call VISION_MODEL (Parts [TextPart ocr_prompt, ImagePart 4]), Sleep_call 6])"
proof -
  let ?f = "\<lparr>filename = ''page.jpg'', stream = ''jpeg''\<rparr>"
  let ?env = "sample_env script_down"
  have post: "req_method req_image = ''POST''"
    by (simp add: req_image_def)
  have question: "strip (opt_or (form req_image ''question'') []) \<noteq> []"
    by (simp add: req_image_def opt_or_def str_or_def strip_def lstrip_def rstrip_def isspace_def)
  have img: "files req_image ''image'' = Some ?f"
    by (simp add: req_image_def)
  have name: "filename ?f \<noteq> []" by simp
  have pdf: "pdf_step ?env (files req_image ''pdf'') [] [] []"
    by (simp add: req_image_def pdf_step_def)
  have decoded: "Image_open ?env (stream ?f) = Inr 4"
    by (simp add: sample_env_def)
  have failed: "gen_with_retry ?env VISION_MODEL (Parts [TextPart ocr_prompt, ImagePart 4]) 3
      ([] @ [Image_open_call (stream ?f)]) =
      (Inl (Exn ''ServerError'' ''third failure''),
       [Image_open_call ''jpeg'',
        Generate_call VISION_MODEL (Parts [TextPart ocr_prompt, ImagePart 4]), Sleep_call 2,
        Generate_call VISION_MODEL (Parts [TextPart ocr_prompt, ImagePart 4]), Sleep_call 4,
        Generate_call VISION_MODEL (Parts [TextPart ocr_prompt, ImagePart 4]), Sleep_call 6])"
    by (simp add: gen_with_retry_3 gen_count_simps sample_env_def script_down_def)
  from home_transcription_failure [OF post question img name pdf decoded failed]
    post question img pdf decoded
  show ?thesis by simp
qed

text \<open>
  C10. A request that reaches the image step with an image attached: when the
  transcription returns the empty string, \<open>home\<close> goes on to the prompt and the answer
  with the notes it had before the image step, unchanged, and from the trace the
  transcription left; when the generation then succeeds, the result is the formatted
  answer and an empty error.
\<close>

theorem home_empty_transcription:
  assumes "req_method req = ''POST''" and "strip (opt_or (form req ''question'') []) \<noteq> []"
    and "files req ''image'' = Some f" and "filename f \<noteq> []"
    and "pdf_step env (files req ''pdf'') tr notes_text tr0"
    and "ocr_image_with_gemini env f tr0 = (Inr [], tr1)"
  shows "home env req tr =
       home_generate env (dict_get (form req) ''mode'' ''explain'')
         (strip (opt_or (form req ''question'') [])) notes_text tr1
     \<and> (\<forall>t tr2.
          gen_with_retry env TEXT_MODEL
            (Text (build_prompt (dict_get (form req) ''mode'' ''explain'')
                     (strip (opt_or (form req ''question'') [])) notes_text)) 3 tr1 = (Inr t, tr2) \<longrightarrow>
          home env req tr = (Inr \<lparr>answer = format_html t, error = []\<rparr>, tr2))"
proof -
  have "home env req tr =
      home_image env (Some f) (dict_get (form req) ''mode'' ''explain'')
        (strip (opt_or (form req ''question'') [])) notes_text tr0"
    using assms(1-3) home_pdf_passed [OF assms(5)] by (simp add: home_POST)
  with assms(4,6) have "home env req tr =
       home_generate env (dict_get (form req) ''mode'' ''explain'')
         (strip (opt_or (form req ''question'') [])) notes_text tr1"
    by (simp add: home_image_def)
  then show ?thesis by (simp add: home_generate_def Let_def)
qed


theorem home_empty_transcription_witness:
  "req_method req_both = ''POST'' \<and> strip (opt_or (form req_both ''question'') []) \<noteq> []
   \<and> files req_both ''image'' = Some \<lparr>filename = ''page.jpg'', stream = ''jpeg''\<rparr>
   \<and> pdf_step (sample_env script_blank_ocr) (files req_both ''pdf'') []
        ''Cells\<newline>\<newline>Osmosis'' [PdfReader_call ''good'']
   \<and> ocr_image_with_gemini (sample_env script_blank_ocr)
        \<lparr>filename = ''page.jpg'', stream = ''jpeg''\<rparr> [PdfReader_call ''good''] =
       (Inr [], [PdfReader_call ''good'', Image_open_call ''jpeg'',
                 Generate_call VISION_MODEL (Parts [TextPart ocr_prompt, ImagePart 4])])
   \<and> home (sample_env script_blank_ocr) req_both [] =
       (Inr \<lparr>answer = ''Water<br>moves.'', error = []\<rparr>,
        [PdfReader_call ''good'', Image_open_call ''jpeg'',
         Generate_call VISION_MODEL (Parts [TextPart ocr_prompt, ImagePart 4]),
         Generate_call TEXT_MODEL
           (Text (build_prompt ''revision'' ''What is osmosis?'' ''Cells\<newline>\<newline>Osmosis''))])
   \<and> notes_block ''Cells\<newline>\<newline>Osmosis'' = ''\<newline>NOTES:\<newline>Cells\<newline>\<newline>Osmosis\<newline>''"
proof -
  let ?f = "\<lparr>filename = ''page.jpg'', stream = ''jpeg''\<rparr>"
  let ?env = "sample_env script_blank_ocr"
  let ?notes = "''Cells\<newline>\<newline>Osmosis''"
  let ?tr0 = "[PdfReader_call ''good''] :: nat event list"
  let ?tr1 = "[PdfReader_call ''good'', Image_open_call ''jpeg'',
      Generate_call VISION_MODEL (Parts [TextPart ocr_prompt, ImagePart (4::nat)])]"
  have post: "req_method req_both = ''POST''"
    by (simp add: req_both_def)
  have question: "strip (opt_or (form req_both ''question'') []) = ''What is osmosis?''"
    by (simp add: req_both_def opt_or_def str_or_def strip_def lstrip_def rstrip_def isspace_def)
  then have asked: "strip (opt_or (form req_both ''question'') []) \<noteq> []" by simp
  have mode: "dict_get (form req_both) ''mode'' ''explain'' = ''revision''"
    by (simp add: req_both_def dict_get_def)
  have img: "files req_both ''image'' = Some ?f"
    by (simp add: req_both_def)
  have name: "filename ?f \<noteq> []" by simp
  have extracted: "extract_pdf_text ?env \<lparr>filename = ''notes.pdf'', stream = ''good''\<rparr> [] =
      (Inr ?notes, ?tr0)"
    by (simp add: extract_pdf_text_def extract_pdf_text_try_def sample_env_def
        sample_PdfReader_def opt_or_def str_or_def strip_def lstrip_def rstrip_def isspace_def)
  have pdf: "pdf_step ?env (files req_both ''pdf'') [] ?notes ?tr0"
    using extracted by (simp add: req_both_def pdf_step_def)
  have ocr: "ocr_image_with_gemini ?env ?f ?tr0 = (Inr [], ?tr1)"
    by (simp add: ocr_image_with_gemini_def Let_def gen_with_retry_3 gen_count_simps
        sample_env_def script_blank_ocr_def response_text_def str_or_def
        strip_def lstrip_def rstrip_def isspace_def)
  have answered: "gen_with_retry ?env TEXT_MODEL
      (Text (build_prompt ''revision'' ''What is osmosis?'' ?notes)) 3 ?tr1 =
      (Inr ''Water\<newline>moves.'',
       ?tr1 @ [Generate_call TEXT_MODEL (Text (build_prompt ''revision'' ''What is osmosis?'' ?notes))])"
    by (simp add: gen_with_retry_3 gen_count_simps sample_env_def script_blank_ocr_def
        response_text_def str_or_def)
  have html: "format_html ''Water\<newline>moves.'' = ''Water<br>moves.''"
    by (simp add: format_html_def replace_eval)
  have block: "notes_block ?notes = ''\<newline>NOTES:\<newline>Cells\<newline>\<newline>Osmosis\<newline>''"
    by (simp add: notes_block_def strip_def lstrip_def rstrip_def isspace_def)
  note run = home_empty_transcription [OF post asked img name pdf ocr, THEN conjunct2,
      unfolded question mode, rule_format, OF answered]
  from run have "home ?env req_both [] =
      (Inr \<lparr>answer = ''Water<br>moves.'', error = []\<rparr>,
       ?tr1 @ [Generate_call TEXT_MODEL (Text (build_prompt ''revision'' ''What is osmosis?'' ?notes))])"
    by (simp only: html)
  with post asked img pdf ocr block show ?thesis by simp
qed

end
